theory Spec2Isabelle
  imports Complex_Main "HOL-Library.Word"
begin

unbundle bit_operations_syntax

section \<open>Errors and bytes\<close>

text \<open>
  Exceptions of class \<open>Exception\<close> are values of \<open>error\<close>.  A procedure that returns
  \<open>None\<close> in Python returns \<open>error option \<times> state\<close> here: \<open>None\<close> for a normal
  return, \<open>Some e\<close> when \<open>e\<close> was raised, always with the object state reached so far.
  A function with a result returns \<open>error + 'a\<close>.  Calls into the external libraries
  (PyAudio, SciPy, the Live API client) take their outcome as an argument, so every
  outcome is covered.  Interrupts outside class \<open>Exception\<close> (task cancellation,
  KeyboardInterrupt) and writes to standard output are not modelled.
\<close>

datatype error = OSError | ValueError | TypeError | ZeroDivisionError | LibraryError string

type_synonym byte = "8 word"
type_synonym int16 = "16 word"

section \<open>logger.py: FeedbackLogger\<close>

text \<open>
  The log file is the list of lines written so far.  A line is its \<open>HH:MM:SS\<close>
  timestamp and its message.  The messages of the stats block keep the numbers they
  format (the f-string rendering of a float is not modelled).  The wall clock is a
  function from the number of lines already in the file to the timestamp read when
  the next line is written; every sequence of readings is such a function.
\<close>

datatype message =
    Line string
  | Stats_header
  | Frames_sent nat
  | Audio_duration rat
  | Responses_received nat

type_synonym clock = "nat \<Rightarrow> string"

record feedback_logger =
  fl_file :: "(string \<times> message) list"
  fl_closed :: bool
  response_count :: nat

text \<open>\<open>_log\<close>: \<open>file.write\<close> on a closed file raises ValueError.\<close>

definition log_line :: "clock \<Rightarrow> message \<Rightarrow> feedback_logger \<Rightarrow> error option \<times> feedback_logger" where
  "log_line clk m lg =
     (if fl_closed lg then (Some ValueError, lg)
      else (None, lg\<lparr>fl_file := fl_file lg @ [(clk (length (fl_file lg)), m)]\<rparr>))"

text \<open>Sequencing of two procedures on the same object: the second runs only when the first returned.\<close>

definition and_then ::
  "('s \<Rightarrow> error option \<times> 's) \<Rightarrow> ('s \<Rightarrow> error option \<times> 's) \<Rightarrow> 's \<Rightarrow> error option \<times> 's" where
  "and_then f g s = (case f s of (Some e, s') \<Rightarrow> (Some e, s') | (None, s') \<Rightarrow> g s')"

definition log_stats :: "clock \<Rightarrow> nat \<Rightarrow> rat \<Rightarrow> feedback_logger \<Rightarrow> error option \<times> feedback_logger" where
  "log_stats clk frames audio_secs lg =
     and_then (log_line clk Stats_header)
       (and_then (log_line clk (Frames_sent frames))
         (and_then (log_line clk (Audio_duration audio_secs))
           (\<lambda>l. log_line clk (Responses_received (response_count l)) l))) lg"

text \<open>\<open>close\<close>: closing a file twice is allowed in Python.\<close>

definition close_logger :: "feedback_logger \<Rightarrow> feedback_logger" where
  "close_logger lg = lg\<lparr>fl_closed := True\<rparr>"

section \<open>audio\_stream.py: AudioStream\<close>

definition TARGET_RATE :: int where "TARGET_RATE = 16000"
definition CHUNK :: nat where "CHUNK = 1024"
definition RATE :: int where "RATE = TARGET_RATE"

text \<open>
  \<open>as_stream\<close> is the truth value of \<open>self.stream\<close> (a PyAudio stream object once
  opened, \<open>None\<close> before); \<open>stop\<close> never resets it.
\<close>

record audio_stream =
  as_stream :: bool
  as_running :: bool
  native_rate :: "int option"

text \<open>The outcomes of \<open>stream.stop_stream()\<close>, \<open>stream.close()\<close> and \<open>pa.terminate()\<close>.\<close>

record pyaudio_env =
  stop_stream_out :: "error option"
  close_out :: "error option"
  terminate_out :: "error option"

definition stop :: "pyaudio_env \<Rightarrow> audio_stream \<Rightarrow> error option \<times> audio_stream" where
  "stop env a =
     (let a' = a\<lparr>as_running := False\<rparr> in
      if as_stream a' then
        (case stop_stream_out env of
           Some e \<Rightarrow> (Some e, a')
         | None \<Rightarrow>
             (case close_out env of
                Some e \<Rightarrow> (Some e, a')
              | None \<Rightarrow> (terminate_out env, a')))
      else (terminate_out env, a'))"

text \<open>
  \<open>np.frombuffer(data, dtype=np.int16)\<close>: little-endian pairs of bytes, ValueError when
  the size is not a multiple of 2.  \<open>tobytes\<close> is its inverse.
\<close>

fun frombuffer :: "byte list \<Rightarrow> error + int16 list" where
  "frombuffer [] = Inr []"
| "frombuffer [b] = Inl ValueError"
| "frombuffer (lo # hi # bs) =
     (case frombuffer bs of
        Inl e \<Rightarrow> Inl e
      | Inr ws \<Rightarrow> Inr ((push_bit 8 (ucast hi) OR ucast lo) # ws))"

definition tobytes :: "int16 list \<Rightarrow> byte list" where
  "tobytes ws = concat (map (\<lambda>w. [ucast w, ucast (drop_bit 8 w)]) ws)"

text \<open>
  \<open>int(a / b)\<close> for integers \<open>a\<close> and \<open>b \<noteq> 0\<close>: the quotient truncated towards zero
  (exact as long as \<open>\<bar>a\<bar> < 2 ^ 53\<close>, where the float quotient cannot round up to
  an integer).
\<close>

definition int_of_quotient :: "int \<Rightarrow> int \<Rightarrow> int" where
  "int_of_quotient a b = sgn a * sgn b * (\<bar>a\<bar> div \<bar>b\<bar>)"

text \<open>
  \<open>signal.resample(samples, num_samples)\<close> followed by \<open>astype(np.int16)\<close> is SciPy's
  and NumPy's: an argument of \<open>read_chunk\<close>.
\<close>

type_synonym resampler = "int16 list \<Rightarrow> int \<Rightarrow> error + int16 list"

text \<open>
  The first argument is the outcome of \<open>stream.read(CHUNK, exception_on_overflow=False)\<close>,
  should it be called.  With \<open>native_rate\<close> still \<open>None\<close> the division raises TypeError,
  with 0 ZeroDivisionError.
\<close>

definition read_chunk :: "(error + byte list) \<Rightarrow> resampler \<Rightarrow> audio_stream \<Rightarrow> error + byte list" where
  "read_chunk read_out resample a =
     (if \<not> as_stream a \<or> \<not> as_running a then Inr []
      else
        (case read_out of
           Inl e \<Rightarrow> Inl e
         | Inr data \<Rightarrow>
             if native_rate a \<noteq> Some TARGET_RATE then
               (case frombuffer data of
                  Inl e \<Rightarrow> Inl e
                | Inr samples \<Rightarrow>
                    (case native_rate a of
                       None \<Rightarrow> Inl TypeError
                     | Some r \<Rightarrow>
                         if r = 0 then Inl ZeroDivisionError
                         else
                           (case resample samples
                                   (int_of_quotient (int (length samples) * TARGET_RATE) r) of
                              Inl e \<Rightarrow> Inl e
                            | Inr resampled \<Rightarrow> Inr (tobytes resampled))))
             else Inr data))"

section \<open>gemini\_session.py: GeminiSession\<close>

datatype blob = Image_jpeg string | Audio_pcm "byte list"

text \<open>
  \<open>gs_session\<close> is the truth value of \<open>self.session\<close>, \<open>gs_session_ctx\<close> that of
  \<open>hasattr(self, '_session_ctx') and self._session_ctx\<close>.  \<open>gs_channel\<close> lists what
  \<open>session.send_realtime_input\<close> has accepted.
\<close>

record gemini_session =
  gs_session :: bool
  gs_running :: bool
  gs_session_ctx :: bool
  gs_channel :: "blob list"

text \<open>The first argument is the outcome of \<open>send_realtime_input\<close>, should it be called.\<close>

definition send_frame :: "error option \<Rightarrow> string \<Rightarrow> gemini_session \<Rightarrow> error option \<times> gemini_session" where
  "send_frame out base64_jpeg g =
     (if gs_session g \<and> gs_running g then
        (case out of
           Some e \<Rightarrow> (Some e, g)
         | None \<Rightarrow> (None, g\<lparr>gs_channel := gs_channel g @ [Image_jpeg base64_jpeg]\<rparr>))
      else (None, g))"

definition send_audio :: "error option \<Rightarrow> byte list \<Rightarrow> gemini_session \<Rightarrow> error option \<times> gemini_session" where
  "send_audio out pcm_data g =
     (if gs_session g \<and> gs_running g then
        (case out of
           Some e \<Rightarrow> (Some e, g)
         | None \<Rightarrow> (None, g\<lparr>gs_channel := gs_channel g @ [Audio_pcm pcm_data]\<rparr>))
      else (None, g))"

text \<open>
  The first argument is the outcome of \<open>_session_ctx.__aexit__\<close>, should it be called;
  \<open>except Exception: pass\<close> turns a raise into a normal return.
\<close>

definition disconnect :: "error option \<Rightarrow> gemini_session \<Rightarrow> error option \<times> gemini_session" where
  "disconnect aexit_out g =
     (let g' = g\<lparr>gs_running := False\<rparr> in
      if gs_session_ctx g' then
        (case aexit_out of
           Some e \<Rightarrow> (None, g')
         | None \<Rightarrow> (None, g'))
      else (None, g'))"









section \<open>main.py: WorkshopAttendee\<close>

record workshop_attendee =
  wa_logger :: feedback_logger
  wa_audio :: audio_stream
  wa_gemini :: gemini_session
  wa_running :: bool
  frames_sent :: nat
  audio_chunks_sent :: nat

text \<open>What the collaborators do when \<open>shutdown\<close> calls them.\<close>

record shutdown_env =
  se_pyaudio :: pyaudio_env
  se_aexit_out :: "error option"
  se_clock :: clock

text \<open>\<open>audio_seconds = (self.audio_chunks_sent * AudioStream.CHUNK) / (AudioStream.RATE * 2)\<close>,
  Python's true division, on exact rationals.\<close>

definition audio_seconds :: "nat \<Rightarrow> rat" where
  "audio_seconds chunks = of_nat (chunks * CHUNK) / of_int (RATE * 2)"

definition shutdown :: "shutdown_env \<Rightarrow> workshop_attendee \<Rightarrow> error option \<times> workshop_attendee" where
  "shutdown env s =
     (let s1 = s\<lparr>wa_running := False\<rparr> in
      case stop (se_pyaudio env) (wa_audio s1) of
        (Some e, a) \<Rightarrow> (Some e, s1\<lparr>wa_audio := a\<rparr>)
      | (None, a) \<Rightarrow>
          (let s2 = s1\<lparr>wa_audio := a\<rparr> in
           case disconnect (se_aexit_out env) (wa_gemini s2) of
             (Some e, g) \<Rightarrow> (Some e, s2\<lparr>wa_gemini := g\<rparr>)
           | (None, g) \<Rightarrow>
               (let s3 = s2\<lparr>wa_gemini := g\<rparr> in
                case log_stats (se_clock env) (frames_sent s3)
                       (audio_seconds (audio_chunks_sent s3)) (wa_logger s3) of
                  (Some e, lg) \<Rightarrow> (Some e, s3\<lparr>wa_logger := lg\<rparr>)
                | (None, lg) \<Rightarrow> (None, s3\<lparr>wa_logger := close_logger lg\<rparr>))))"

text \<open>
  The producer loops.  One loop is run on a script: for each iteration, what the
  collaborators do in it and whether \<open>shutdown\<close> runs on another task while the
  iteration is suspended, at the one suspension point every iteration of that loop
  has: the sleep that ends an iteration of the screen loop, the awaited read that
  begins an iteration of the audio loop.  The outcome tells whether the \<open>while\<close>
  loop has returned or is still looping when the script ends, the state, and what the
  loop reported and how long it paused (seconds).
\<close>

datatype event = Report error | Sleep rat

datatype loop_state = Looping | Returned

definition FRAME_INTERVAL :: rat where "FRAME_INTERVAL = 2 / 5"

definition interfere :: "shutdown_env option \<Rightarrow> workshop_attendee \<Rightarrow> workshop_attendee" where
  "interfere i s = (case i of None \<Rightarrow> s | Some env \<Rightarrow> snd (shutdown env s))"

record screen_env =
  sc_capture_out :: "error + string"
  sc_send_out :: "error option"
  sc_interrupt :: "shutdown_env option"

text \<open>The \<open>try\<close> block of \<open>_screen_loop\<close> up to its sleep.\<close>

definition screen_try :: "screen_env \<Rightarrow> workshop_attendee \<Rightarrow> error option \<times> workshop_attendee" where
  "screen_try e s =
     (case sc_capture_out e of
        Inl err \<Rightarrow> (Some err, s)
      | Inr frame \<Rightarrow>
          (case send_frame (sc_send_out e) frame (wa_gemini s) of
             (Some err, g) \<Rightarrow> (Some err, s\<lparr>wa_gemini := g\<rparr>)
           | (None, g) \<Rightarrow> (None, s\<lparr>wa_gemini := g, frames_sent := frames_sent s + 1\<rparr>)))"

definition screen_iteration :: "screen_env \<Rightarrow> workshop_attendee \<Rightarrow> workshop_attendee \<times> event list" where
  "screen_iteration e s =
     (case screen_try e s of
        (Some err, s') \<Rightarrow> (s', [Report err, Sleep 1])
      | (None, s') \<Rightarrow> (s', [Sleep FRAME_INTERVAL]))"

fun screen_loop :: "screen_env list \<Rightarrow> workshop_attendee \<Rightarrow> loop_state \<times> workshop_attendee \<times> event list" where
  "screen_loop [] s = (if wa_running s then Looping else Returned, s, [])"
| "screen_loop (e # es) s =
     (if wa_running s then
        (case screen_iteration e s of
           (s', evs) \<Rightarrow>
             (case screen_loop es (interfere (sc_interrupt e) s') of
                (st, t, evs') \<Rightarrow> (st, t, evs @ evs')))
      else (Returned, s, []))"

record audio_env =
  au_read_out :: "error + byte list"
  au_resample :: resampler
  au_send_out :: "error option"
  au_interrupt :: "shutdown_env option"

text \<open>The \<open>try\<close> block of \<open>_audio_loop\<close>.\<close>

definition audio_try :: "audio_env \<Rightarrow> workshop_attendee \<Rightarrow> error option \<times> workshop_attendee" where
  "audio_try e s =
     (case read_chunk (au_read_out e) (au_resample e) (wa_audio s) of
        Inl err \<Rightarrow> (Some err, s)
      | Inr chunk \<Rightarrow>
          if chunk \<noteq> [] then
            (case send_audio (au_send_out e) chunk (wa_gemini s) of
               (Some err, g) \<Rightarrow> (Some err, s\<lparr>wa_gemini := g\<rparr>)
             | (None, g) \<Rightarrow> (None, s\<lparr>wa_gemini := g, audio_chunks_sent := audio_chunks_sent s + 1\<rparr>))
          else (None, s))"

definition audio_iteration :: "audio_env \<Rightarrow> workshop_attendee \<Rightarrow> workshop_attendee \<times> event list" where
  "audio_iteration e s =
     (case audio_try e s of
        (Some err, s') \<Rightarrow> (s', [Report err, Sleep (1 / 10)])
      | (None, s') \<Rightarrow> (s', []))"

text \<open>
  The \<open>try\<close> block when \<open>shutdown\<close> runs while the read is awaited: \<open>read_chunk\<close> is
  already running on the worker thread and has tested the stream before the shutdown;
  the chunk it returns is handled after the shutdown.
\<close>

definition audio_try_across ::
  "shutdown_env \<Rightarrow> audio_env \<Rightarrow> workshop_attendee \<Rightarrow> error option \<times> workshop_attendee" where
  "audio_try_across env e s =
     (case read_chunk (au_read_out e) (au_resample e) (wa_audio s) of
        Inl err \<Rightarrow> (Some err, snd (shutdown env s))
      | Inr chunk \<Rightarrow>
          (let s1 = snd (shutdown env s) in
           if chunk \<noteq> [] then
             (case send_audio (au_send_out e) chunk (wa_gemini s1) of
                (Some err, g) \<Rightarrow> (Some err, s1\<lparr>wa_gemini := g\<rparr>)
              | (None, g) \<Rightarrow>
                  (None, s1\<lparr>wa_gemini := g, audio_chunks_sent := audio_chunks_sent s1 + 1\<rparr>))
           else (None, s1)))"

definition audio_iteration_across ::
  "shutdown_env \<Rightarrow> audio_env \<Rightarrow> workshop_attendee \<Rightarrow> workshop_attendee \<times> event list" where
  "audio_iteration_across env e s =
     (case audio_try_across env e s of
        (Some err, s') \<Rightarrow> (s', [Report err, Sleep (1 / 10)])
      | (None, s') \<Rightarrow> (s', []))"

fun audio_loop :: "audio_env list \<Rightarrow> workshop_attendee \<Rightarrow> loop_state \<times> workshop_attendee \<times> event list" where
  "audio_loop [] s = (if wa_running s then Looping else Returned, s, [])"
| "audio_loop (e # es) s =
     (if wa_running s then
        (case (case au_interrupt e of
                 None \<Rightarrow> audio_iteration e s
               | Some env \<Rightarrow> audio_iteration_across env e s) of
           (s', evs) \<Rightarrow>
             (case audio_loop es s' of
                (st, t, evs') \<Rightarrow> (st, t, evs @ evs')))
      else (Returned, s, []))"


section \<open>The specification's wording\<close>


text \<open>Python's \<open>round\<close> (halves to the even neighbour), on exact rationals.\<close>

definition py_round :: "rat \<Rightarrow> int" where
  "py_round q =
     (let f = \<lfloor>q\<rfloor>; d = q - of_int f
      in if d < 1 / 2 then f else if 1 / 2 < d then f + 1 else if even f then f else f + 1)"

section \<open>Concrete sessions\<close>

definition noon :: clock where
  "noon n = ''12:00:00''"

definition quiet_pyaudio :: pyaudio_env where
  "quiet_pyaudio = \<lparr>stop_stream_out = None, close_out = None, terminate_out = None\<rparr>"

definition quiet_shutdown :: shutdown_env where
  "quiet_shutdown = \<lparr>se_pyaudio = quiet_pyaudio, se_aexit_out = None, se_clock = noon\<rparr>"

definition fresh_logger :: feedback_logger where
  "fresh_logger = \<lparr>fl_file = [(''12:00:00'', Line ''Session started: demo'')],
                    fl_closed = False, response_count = 0\<rparr>"

definition open_audio :: audio_stream where
  "open_audio = \<lparr>as_stream = True, as_running = True, native_rate = Some 16000\<rparr>"

definition connected :: gemini_session where
  "connected = \<lparr>gs_session = True, gs_running = True, gs_session_ctx = True, gs_channel = []\<rparr>"

text \<open>A running session that has sent 10 frames and 16 audio chunks.\<close>

definition session_10_16 :: workshop_attendee where
  "session_10_16 = \<lparr>wa_logger = fresh_logger, wa_audio = open_audio, wa_gemini = connected,
                     wa_running = True, frames_sent = 10, audio_chunks_sent = 16\<rparr>"

text \<open>A session whose audio stream was never opened.\<close>

definition never_started :: workshop_attendee where
  "never_started = session_10_16\<lparr>wa_audio := \<lparr>as_stream = False, as_running = False, native_rate = None\<rparr>\<rparr>"

text \<open>A device at 48 kHz, and a stand-in resampler that returns the requested number of
  samples, all zero.\<close>

definition audio_48k :: audio_stream where
  "audio_48k = \<lparr>as_stream = True, as_running = True, native_rate = Some 48000\<rparr>"

definition silent_resample :: resampler where
  "silent_resample samples num = (if num < 0 then Inl ValueError else Inr (replicate (nat num) 0))"

text \<open>A stand-in resampler that raises when it is given no samples or asked for none, as
  a Fourier transform of zero points does.\<close>

definition strict_resample :: resampler where
  "strict_resample samples num =
     (if samples = [] \<or> num \<le> 0 then Inl (LibraryError ''resample'')
      else Inr (replicate (nat num) 0))"

text \<open>A shutdown in which \<open>stream.stop_stream()\<close> raises.\<close>

definition stuck_stream :: shutdown_env where
  "stuck_stream = quiet_shutdown\<lparr>se_pyaudio := quiet_pyaudio\<lparr>stop_stream_out := Some OSError\<rparr>\<rparr>"












text \<open>Iterations of the producer loops.\<close>

definition capture_fails :: screen_env where
  "capture_fails = \<lparr>sc_capture_out = Inl OSError, sc_send_out = None, sc_interrupt = None\<rparr>"

definition frame_send_fails :: screen_env where
  "frame_send_fails = \<lparr>sc_capture_out = Inr ''/9j/'', sc_send_out = Some (LibraryError ''closed''),
                        sc_interrupt = None\<rparr>"

definition frame_sent_ok :: screen_env where
  "frame_sent_ok = \<lparr>sc_capture_out = Inr ''/9j/'', sc_send_out = None, sc_interrupt = None\<rparr>"


definition read_fails :: audio_env where
  "read_fails = \<lparr>au_read_out = Inl OSError, au_resample = silent_resample,
                  au_send_out = None, au_interrupt = None\<rparr>"

definition chunk_sent_ok :: audio_env where
  "chunk_sent_ok = \<lparr>au_read_out = Inr [1, 0, 2, 0], au_resample = silent_resample,
                     au_send_out = None, au_interrupt = None\<rparr>"

definition chunk_then_shutdown :: audio_env where
  "chunk_then_shutdown = chunk_sent_ok\<lparr>au_interrupt := Some quiet_shutdown\<rparr>"

section \<open>Facts about the collaborating objects\<close>

lemma audio_seconds_value: "audio_seconds n = of_nat n * 4 / 125"
  by (simp add: audio_seconds_def CHUNK_def RATE_def TARGET_RATE_def)

lemma disconnect_eq: "disconnect ax g = (None, g\<lparr>gs_running := False\<rparr>)"
  by (cases ax) (simp_all add: disconnect_def Let_def)

lemma stop_state: "snd (stop env a) = a\<lparr>as_running := False\<rparr>"
  by (simp add: stop_def Let_def split: option.splits)

lemma log_stats_closed: "fl_closed lg \<Longrightarrow> log_stats clk n q lg = (Some ValueError, lg)"
  by (simp add: log_stats_def and_then_def log_line_def)

lemma log_stats_open:
  "\<not> fl_closed lg \<Longrightarrow>
     log_stats clk n q lg =
       (None, lg\<lparr>fl_file := fl_file lg @
          [(clk (length (fl_file lg)), Stats_header),
           (clk (Suc (length (fl_file lg))), Frames_sent n),
           (clk (Suc (Suc (length (fl_file lg)))), Audio_duration q),
           (clk (Suc (Suc (Suc (length (fl_file lg))))), Responses_received (response_count lg))]\<rparr>)"
  by (simp add: log_stats_def and_then_def log_line_def)


lemma length_tobytes: "length (tobytes ws) = 2 * length ws"
  by (induction ws) (simp_all add: tobytes_def)

lemma int_of_quotient_nonneg: "0 \<le> a \<Longrightarrow> 0 < b \<Longrightarrow> int_of_quotient a b = a div b"
  by (cases "a = 0") (simp_all add: int_of_quotient_def)

lemma py_round_near_floor: "py_round q = \<lfloor>q\<rfloor> \<or> py_round q = \<lfloor>q\<rfloor> + 1"
  by (simp add: py_round_def Let_def)

lemma floor_quotient: "\<lfloor>(of_int a :: rat) / of_int b\<rfloor> = a div b"
  by (simp add: floor_divide_of_int_eq)

section \<open>Facts about shutdown\<close>

lemma shutdown_stop_raises:
  "fst (stop (se_pyaudio env) (wa_audio s)) = Some e \<Longrightarrow>
     shutdown env s = (Some e, s\<lparr>wa_running := False, wa_audio := (wa_audio s)\<lparr>as_running := False\<rparr>\<rparr>)"
  using stop_state [of "se_pyaudio env" "wa_audio s"]
  by (cases "stop (se_pyaudio env) (wa_audio s)") (simp add: shutdown_def)

lemma shutdown_stop_returns:
  "fst (stop (se_pyaudio env) (wa_audio s)) = None \<Longrightarrow>
     shutdown env s =
       (case log_stats (se_clock env) (frames_sent s) (audio_seconds (audio_chunks_sent s)) (wa_logger s) of
          (Some e, lg) \<Rightarrow> (Some e, s\<lparr>wa_running := False, wa_audio := (wa_audio s)\<lparr>as_running := False\<rparr>,
                                   wa_gemini := (wa_gemini s)\<lparr>gs_running := False\<rparr>, wa_logger := lg\<rparr>)
        | (None, lg) \<Rightarrow> (None, s\<lparr>wa_running := False, wa_audio := (wa_audio s)\<lparr>as_running := False\<rparr>,
                                   wa_gemini := (wa_gemini s)\<lparr>gs_running := False\<rparr>,
                                   wa_logger := close_logger lg\<rparr>))"
  using stop_state [of "se_pyaudio env" "wa_audio s"]
  by (cases "stop (se_pyaudio env) (wa_audio s)")
     (simp add: shutdown_def disconnect_eq split: prod.splits option.splits)

lemma shutdown_clears_running: "\<not> wa_running (snd (shutdown env s))"
  by (cases "fst (stop (se_pyaudio env) (wa_audio s))")
     (simp_all add: shutdown_stop_raises shutdown_stop_returns split: prod.splits option.splits)

lemma shutdown_audio: "wa_audio (snd (shutdown env s)) = (wa_audio s)\<lparr>as_running := False\<rparr>"
  by (cases "fst (stop (se_pyaudio env) (wa_audio s))")
     (simp_all add: shutdown_stop_raises shutdown_stop_returns split: prod.splits option.splits)

lemma shutdown_returned:
  assumes "fst (shutdown env s) = None"
  shows "fl_closed (wa_logger (snd (shutdown env s)))"
    and "\<not> as_running (wa_audio (snd (shutdown env s)))"
    and "\<not> gs_running (wa_gemini (snd (shutdown env s)))"
proof -
  have st: "fst (stop (se_pyaudio env) (wa_audio s)) = None"
  proof (cases "fst (stop (se_pyaudio env) (wa_audio s))")
    case (Some e)
    then show ?thesis using assms by (simp add: shutdown_stop_raises)
  qed simp
  show "fl_closed (wa_logger (snd (shutdown env s)))"
    using assms
    by (simp add: shutdown_stop_returns [OF st] close_logger_def split: prod.splits option.splits)
  show "\<not> as_running (wa_audio (snd (shutdown env s)))"
    by (simp add: shutdown_stop_returns [OF st] split: prod.splits option.splits)
  show "\<not> gs_running (wa_gemini (snd (shutdown env s)))"
    by (simp add: shutdown_stop_returns [OF st] split: prod.splits option.splits)
qed

lemma shutdown_after_shutdown:
  assumes "fl_closed (wa_logger s)" "\<not> wa_running s" "\<not> as_running (wa_audio s)"
    "\<not> gs_running (wa_gemini s)"
  shows "snd (shutdown env s) = s"
    and "fst (shutdown env s) =
           (case fst (stop (se_pyaudio env) (wa_audio s)) of Some e \<Rightarrow> Some e | None \<Rightarrow> Some ValueError)"
proof -
  have a: "(wa_audio s)\<lparr>as_running := False\<rparr> = wa_audio s"
    using assms(3) by simp
  have g: "(wa_gemini s)\<lparr>gs_running := False\<rparr> = wa_gemini s"
    using assms(4) by simp
  have r: "s\<lparr>wa_running := False\<rparr> = s"
    using assms(2) by simp
  show "snd (shutdown env s) = s"
    by (cases "fst (stop (se_pyaudio env) (wa_audio s))")
       (simp_all add: shutdown_stop_raises shutdown_stop_returns log_stats_closed assms(1) a g r)
  show "fst (shutdown env s) =
           (case fst (stop (se_pyaudio env) (wa_audio s)) of Some e \<Rightarrow> Some e | None \<Rightarrow> Some ValueError)"
    by (cases "fst (stop (se_pyaudio env) (wa_audio s))")
       (simp_all add: shutdown_stop_raises shutdown_stop_returns log_stats_closed assms(1))
qed

lemma quiet_shutdown_returns: "fst (shutdown quiet_shutdown session_10_16) = None"
  by (simp add: shutdown_def stop_def disconnect_def log_stats_def and_then_def log_line_def
      close_logger_def quiet_shutdown_def quiet_pyaudio_def
      session_10_16_def fresh_logger_def open_audio_def connected_def)

section \<open>Facts about the producer loops\<close>



















lemma screen_script_value:
  "screen_loop [capture_fails, frame_send_fails, frame_sent_ok] session_10_16 =
     (Looping,
      session_10_16\<lparr>wa_gemini := connected\<lparr>gs_channel := [Image_jpeg ''/9j/'']\<rparr>, frames_sent := 11\<rparr>,
      [Report OSError, Sleep 1, Report (LibraryError ''closed''), Sleep 1, Sleep (2 / 5)])"
  by (simp add: screen_iteration_def screen_try_def send_frame_def interfere_def
      capture_fails_def frame_send_fails_def frame_sent_ok_def session_10_16_def connected_def
      FRAME_INTERVAL_def)

lemma audio_script_value:
  "audio_loop [read_fails, chunk_sent_ok] session_10_16 =
     (Looping,
      session_10_16\<lparr>wa_gemini := connected\<lparr>gs_channel := [Audio_pcm [1, 0, 2, 0]]\<rparr>,
                    audio_chunks_sent := 17\<rparr>,
      [Report OSError, Sleep (1 / 10)])"
  by (simp add: audio_iteration_def audio_try_def send_audio_def read_chunk_def
      read_fails_def chunk_sent_ok_def session_10_16_def connected_def open_audio_def
      TARGET_RATE_def)

lemma audio_read_across_shutdown_counted:
  "fst (audio_loop [chunk_sent_ok, chunk_then_shutdown] session_10_16) = Returned
   \<and> audio_chunks_sent (fst (snd (audio_loop [chunk_sent_ok, chunk_then_shutdown] session_10_16))) = 18
   \<and> gs_channel (wa_gemini (fst (snd (audio_loop [chunk_sent_ok, chunk_then_shutdown] session_10_16))))
       = [Audio_pcm [1, 0, 2, 0]]"
  by (simp add: audio_iteration_def audio_try_def audio_iteration_across_def audio_try_across_def
      send_audio_def read_chunk_def shutdown_def stop_def disconnect_def log_stats_def
      and_then_def log_line_def close_logger_def quiet_shutdown_def quiet_pyaudio_def
      chunk_then_shutdown_def chunk_sent_ok_def session_10_16_def connected_def open_audio_def
      fresh_logger_def TARGET_RATE_def)

section \<open>Shutdown accounting\<close>

text \<open>
  C1.  The claim: the audio duration handed to \<open>log_stats\<close> at shutdown is
  \<open>audio_chunks_sent * 1024 / 16000\<close>.  The code divides by \<open>RATE * 2 = 32000\<close>
  while multiplying by the chunk size in samples, so it reports half of that: with
  16 chunks sent the stats block carries \<open>64/125 = 0.512\<close> seconds, where the claimed
  formula gives \<open>128/125 = 1.024\<close>.
\<close>

theorem shutdown_reports_half_duration:
  "map snd (fl_file (wa_logger (snd (shutdown quiet_shutdown session_10_16))))
     = [Line ''Session started: demo'', Stats_header, Frames_sent 10,
        Audio_duration (64 / 125), Responses_received 0]
   \<and> (of_nat (16 * 1024) / 16000 :: rat) = 128 / 125
   \<and> audio_seconds 16 \<noteq> of_nat (16 * 1024) / 16000"
  by (simp add: shutdown_def stop_def disconnect_def log_stats_def and_then_def log_line_def
      close_logger_def audio_seconds_value quiet_shutdown_def quiet_pyaudio_def
      session_10_16_def fresh_logger_def open_audio_def connected_def noon_def)

section \<open>Text extraction in the response listener\<close>




section \<open>The shutdown sequence\<close>

text \<open>
  When \<open>stream.stop_stream()\<close> raises, \<open>shutdown\<close> raises: the link is still marked
  running, no stats line is written and the log is left open.
\<close>

theorem shutdown_stop_raises_counterexample:
  "fst (shutdown stuck_stream session_10_16) = Some OSError
   \<and> gs_running (wa_gemini (snd (shutdown stuck_stream session_10_16)))
   \<and> fl_file (wa_logger (snd (shutdown stuck_stream session_10_16))) = fl_file fresh_logger
   \<and> \<not> fl_closed (wa_logger (snd (shutdown stuck_stream session_10_16)))"
  by (simp add: shutdown_def stop_def stuck_stream_def quiet_shutdown_def quiet_pyaudio_def
      session_10_16_def fresh_logger_def open_audio_def connected_def)

text \<open>
  C3 (amended).  \<open>shutdown\<close> runs its steps in order and guards none of them.  If
  stopping the audio stream raises, the exception leaves \<open>shutdown\<close> at once: only the
  two running flags (orchestrator, audio stream) have been cleared, the link is not
  disconnected, no stats are written and the log is not closed.  If stopping the audio
  stream returns and the log is open, \<open>shutdown\<close> returns normally with the link marked
  not running (a failure of the channel release is swallowed), the four stats lines
  appended to the log and the log closed.
\<close>

theorem shutdown_sequence:
  "(fst (stop (se_pyaudio env) (wa_audio s)) = Some e \<longrightarrow>
      shutdown env s = (Some e, s\<lparr>wa_running := False, wa_audio := (wa_audio s)\<lparr>as_running := False\<rparr>\<rparr>))
   \<and> (fst (stop (se_pyaudio env) (wa_audio s)) = None \<and> \<not> fl_closed (wa_logger s) \<longrightarrow>
        fst (shutdown env s) = None
        \<and> \<not> gs_running (wa_gemini (snd (shutdown env s)))
        \<and> fl_closed (wa_logger (snd (shutdown env s)))
        \<and> map snd (fl_file (wa_logger (snd (shutdown env s)))) =
            map snd (fl_file (wa_logger s)) @
              [Stats_header, Frames_sent (frames_sent s),
               Audio_duration (audio_seconds (audio_chunks_sent s)),
               Responses_received (response_count (wa_logger s))])"
  by (simp add: shutdown_stop_raises shutdown_stop_returns log_stats_open close_logger_def)

theorem shutdown_sequence_witness:
  "shutdown stuck_stream session_10_16
      = (Some OSError, session_10_16\<lparr>wa_running := False, wa_audio := open_audio\<lparr>as_running := False\<rparr>\<rparr>)
   \<and> fst (shutdown quiet_shutdown session_10_16) = None
   \<and> \<not> gs_running (wa_gemini (snd (shutdown quiet_shutdown session_10_16)))
   \<and> fl_closed (wa_logger (snd (shutdown quiet_shutdown session_10_16)))"
  using shutdown_sequence [of stuck_stream session_10_16 OSError]
    shutdown_sequence [of quiet_shutdown session_10_16]
  by (simp add: stop_def stuck_stream_def quiet_shutdown_def quiet_pyaudio_def
      session_10_16_def fresh_logger_def open_audio_def connected_def)

section \<open>Shutting down twice\<close>

text \<open>
  A second \<open>shutdown\<close> after one that returned raises ValueError: \<open>log_stats\<close> writes to
  the log file that the first call closed.
\<close>

theorem shutdown_twice_counterexample:
  "fst (shutdown quiet_shutdown session_10_16) = None
   \<and> fst (shutdown quiet_shutdown (snd (shutdown quiet_shutdown session_10_16))) = Some ValueError"
  by (simp add: shutdown_def stop_def disconnect_def log_stats_def and_then_def log_line_def
      close_logger_def quiet_shutdown_def quiet_pyaudio_def
      session_10_16_def fresh_logger_def open_audio_def connected_def)

text \<open>
  C4 (amended).  After a \<open>shutdown\<close> that returned normally, a second \<open>shutdown\<close> leaves
  the session state and the log file exactly as the first call left them (no second
  stats block is written), and it raises: the exception of the audio stop if that
  raises, ValueError from the write to the closed log otherwise.
\<close>

theorem shutdown_twice:
  assumes "fst (shutdown env s) = None"
  shows "snd (shutdown env' (snd (shutdown env s))) = snd (shutdown env s)
         \<and> fst (shutdown env' (snd (shutdown env s))) =
             (case fst (stop (se_pyaudio env') (wa_audio (snd (shutdown env s)))) of
                Some e \<Rightarrow> Some e | None \<Rightarrow> Some ValueError)"
  using shutdown_after_shutdown [OF shutdown_returned(1) [OF assms] shutdown_clears_running
      shutdown_returned(2) [OF assms] shutdown_returned(3) [OF assms]]
  by simp

theorem shutdown_twice_witness:
  "fst (shutdown quiet_shutdown session_10_16) = None
   \<and> snd (shutdown stuck_stream (snd (shutdown quiet_shutdown session_10_16)))
       = snd (shutdown quiet_shutdown session_10_16)
   \<and> fst (shutdown stuck_stream (snd (shutdown quiet_shutdown session_10_16))) = Some OSError
   \<and> fst (shutdown quiet_shutdown (snd (shutdown quiet_shutdown session_10_16))) = Some ValueError"
proof -
  have st: "fst (stop (se_pyaudio stuck_stream)
                  (wa_audio (snd (shutdown quiet_shutdown session_10_16)))) = Some OSError"
    by (simp add: shutdown_audio stop_def Let_def stuck_stream_def quiet_shutdown_def
        quiet_pyaudio_def session_10_16_def open_audio_def)
  have qt: "fst (stop (se_pyaudio quiet_shutdown)
                  (wa_audio (snd (shutdown quiet_shutdown session_10_16)))) = None"
    by (simp add: shutdown_audio stop_def Let_def quiet_shutdown_def quiet_pyaudio_def)
  show ?thesis
    using quiet_shutdown_returns st qt
      shutdown_twice [OF quiet_shutdown_returns, of stuck_stream]
      shutdown_twice [OF quiet_shutdown_returns, of quiet_shutdown]
    by simp
qed

section \<open>Rate conversion\<close>

text \<open>
  C5.  When the native rate equals the target rate, \<open>read_chunk\<close> on an open, running
  stream returns the bytes it read, unchanged, whatever the resampler is.
\<close>

theorem read_chunk_identity_at_target_rate:
  "as_stream a \<Longrightarrow> as_running a \<Longrightarrow> native_rate a = Some TARGET_RATE \<Longrightarrow>
     read_chunk (Inr data) resample a = Inr data"
  by (simp add: read_chunk_def)

theorem read_chunk_identity_at_target_rate_witness:
  "as_stream open_audio \<and> as_running open_audio \<and> native_rate open_audio = Some TARGET_RATE
   \<and> read_chunk (Inr [1, 2, 3, 4]) silent_resample open_audio = Inr [1, 2, 3, 4]"
  using read_chunk_identity_at_target_rate [of open_audio "[1, 2, 3, 4]" silent_resample]
  by (simp add: open_audio_def TARGET_RATE_def)

text \<open>
  With a resampler that raises on zero points, an empty block at 48 kHz makes
  \<open>read_chunk\<close> raise: nothing in \<open>read_chunk\<close> treats the empty case itself.
\<close>

theorem resample_empty_counterexample:
  "read_chunk (Inr []) strict_resample audio_48k = Inl (LibraryError ''resample'')
   \<and> read_chunk (Inr []) strict_resample audio_48k \<noteq> Inr []"
  by (simp add: read_chunk_def strict_resample_def audio_48k_def TARGET_RATE_def)

text \<open>
  C6 (amended).  On an open, running stream with a positive native rate other than the
  target rate, for a block of 16-bit samples, \<open>read_chunk\<close> asks the resampler for
  \<open>n = int(input_length * target_rate / native_rate)\<close> samples.  When the resampler
  returns as many samples as it is asked for, \<open>read_chunk\<close> returns them, two bytes
  per sample, and the number of output samples is within 1 of
  \<open>round(input_length * target_rate / native_rate)\<close>.  \<open>read_chunk\<close> has no case of its
  own for \<open>n = 0\<close> or for an empty block (where \<open>n = 0\<close>): the request goes to the
  resampler as it is, and an error raised by the resampler is raised by \<open>read_chunk\<close>.
\<close>

theorem resampled_length:
  assumes "as_stream a" and "as_running a" and "native_rate a = Some r" and "0 < r"
    and "r \<noteq> TARGET_RATE"
    and "frombuffer data = Inr samples"
    and "n = int_of_quotient (int (length samples) * TARGET_RATE) r"
  shows "(resample samples n = Inr out \<and> int (length out) = n \<longrightarrow>
            read_chunk (Inr data) resample a = Inr (tobytes out)
            \<and> length (tobytes out) = 2 * length out
            \<and> \<bar>int (length out)
                 - py_round (of_nat (length samples) * of_int TARGET_RATE / of_int r)\<bar> \<le> 1)
         \<and> (resample samples n = Inl e \<longrightarrow> read_chunk (Inr data) resample a = Inl e)
         \<and> (data = [] \<longrightarrow> n = 0)"
proof -
  let ?n = "int (length samples) * TARGET_RATE"
  have nn: "0 \<le> ?n" by (simp add: TARGET_RATE_def)
  have len: "n = ?n div r"
    using assms(7) int_of_quotient_nonneg [OF nn assms(4)] by simp
  have fl: "\<lfloor>(of_nat (length samples) * of_int TARGET_RATE / of_int r :: rat)\<rfloor> = ?n div r"
    using floor_quotient [of ?n r] by simp
  have near: "\<bar>n - py_round (of_nat (length samples) * of_int TARGET_RATE / of_int r)\<bar> \<le> 1"
    using py_round_near_floor [of "of_nat (length samples) * of_int TARGET_RATE / of_int r"] fl len
    by auto
  have empty: "data = [] \<longrightarrow> n = 0"
    using assms(6) len by auto
  have err: "resample samples n = Inl e \<longrightarrow> read_chunk (Inr data) resample a = Inl e"
    using assms by (simp add: read_chunk_def)
  have ok: "resample samples n = Inr out \<longrightarrow> read_chunk (Inr data) resample a = Inr (tobytes out)"
    using assms by (simp add: read_chunk_def)
  show ?thesis
    using near empty err ok by (auto simp: length_tobytes)
qed

theorem resampled_length_witness:
  "map_sum id length
     (read_chunk (Inr [1, 0, 2, 0, 3, 0, 4, 0, 5, 0, 6, 0]) strict_resample audio_48k) = Inr 4
   \<and> \<bar>2 - py_round (of_nat 6 * of_int TARGET_RATE / of_int 48000)\<bar> \<le> 1
   \<and> read_chunk (Inr []) strict_resample audio_48k = Inl (LibraryError ''resample'')"
proof -
  have a: "as_stream audio_48k" "as_running audio_48k" "native_rate audio_48k = Some 48000"
    "(0::int) < 48000" "(48000::int) \<noteq> TARGET_RATE"
    by (simp_all add: audio_48k_def TARGET_RATE_def)
  have f6: "frombuffer [1, 0, 2, 0, 3, 0, 4, 0, 5, 0, 6, 0] = Inr [1, 2, 3, 4, 5, 6]"
    by simp
  have q6: "(2::int) = int_of_quotient (int (length [1, 2, 3, 4, 5, 6 :: int16]) * TARGET_RATE) 48000"
    by (simp add: int_of_quotient_def TARGET_RATE_def)
  have f0: "frombuffer [] = Inr []"
    by simp
  have q0: "(0::int) = int_of_quotient (int (length ([] :: int16 list)) * TARGET_RATE) 48000"
    by (simp add: int_of_quotient_def)
  have r6: "strict_resample [1, 2, 3, 4, 5, 6] 2 = Inr [0, 0]"
    by (simp add: strict_resample_def numeral_2_eq_2)
  have r0: "strict_resample [] 0 = Inl (LibraryError ''resample'')"
    by (simp add: strict_resample_def)
  show ?thesis
    using r6 r0
      resampled_length [where resample = strict_resample and out = "[0, 0]", OF a f6 q6]
      resampled_length [where resample = strict_resample and e = "LibraryError ''resample''",
        OF a f0 q0]
    by (simp add: tobytes_def)
qed

section \<open>The session link\<close>

text \<open>
  C7.  If the session is absent or the link's running flag is false, \<open>send_frame\<close> and
  \<open>send_audio\<close> return normally and leave the link, its channel included, as it was,
  whatever the channel would have answered; this holds in particular after
  \<open>disconnect\<close>.
\<close>

theorem send_media_not_connected:
  "(\<not> gs_session g \<or> \<not> gs_running g \<longrightarrow>
      send_frame out frame g = (None, g) \<and> send_audio out pcm g = (None, g))
   \<and> send_frame out frame (snd (disconnect ax g)) = (None, snd (disconnect ax g))
   \<and> send_audio out pcm (snd (disconnect ax g)) = (None, snd (disconnect ax g))"
  by (simp add: send_frame_def send_audio_def disconnect_eq)

theorem send_media_not_connected_witness:
  "\<not> gs_running (connected\<lparr>gs_running := False\<rparr>)
   \<and> send_frame (Some OSError) ''/9j/'' (connected\<lparr>gs_running := False\<rparr>)
       = (None, connected\<lparr>gs_running := False\<rparr>)
   \<and> send_audio (Some OSError) [1, 2] (connected\<lparr>gs_running := False\<rparr>)
       = (None, connected\<lparr>gs_running := False\<rparr>)"
  using send_media_not_connected [of "connected\<lparr>gs_running := False\<rparr>" "Some OSError" "''/9j/''" "[1, 2]"]
  by (simp add: connected_def)

text \<open>
  C8.  \<open>disconnect\<close> returns normally on every link, connected or not and whatever the
  channel release does; afterwards the running flag is false; and a further
  \<open>disconnect\<close> returns normally too and changes nothing.
\<close>

theorem disconnect_total_idempotent:
  "fst (disconnect ax g) = None
   \<and> \<not> gs_running (snd (disconnect ax g))
   \<and> disconnect ax' (snd (disconnect ax g)) = (None, snd (disconnect ax g))"
  by (simp add: disconnect_eq)

section \<open>The producers\<close>



text \<open>
  C10.  When the stream has not been opened or its running flag is false, \<open>read_chunk\<close>
  returns the empty byte string without reading (in particular after \<open>stop\<close>), and
  the audio iteration then sends nothing, leaves the counter and the whole session
  state as they were, and reports no error; so does every iteration whose chunk is
  empty.
\<close>

theorem read_chunk_not_running:
  "(\<not> as_stream a \<or> \<not> as_running a \<longrightarrow> read_chunk read_out resample a = Inr [])
   \<and> read_chunk read_out resample (snd (stop env a)) = Inr []
   \<and> (\<not> as_stream (wa_audio s) \<or> \<not> as_running (wa_audio s) \<longrightarrow>
        audio_try e s = (None, s) \<and> audio_iteration e s = (s, []))
   \<and> (read_chunk (au_read_out e) (au_resample e) (wa_audio s) = Inr [] \<longrightarrow>
        audio_try e s = (None, s) \<and> audio_iteration e s = (s, []))"
  by (simp add: read_chunk_def stop_state audio_try_def audio_iteration_def)

theorem read_chunk_not_running_witness:
  "\<not> as_stream (wa_audio never_started)
   \<and> read_chunk (Inl OSError) silent_resample (wa_audio never_started) = Inr []
   \<and> audio_iteration read_fails never_started = (never_started, [])
   \<and> gs_channel (wa_gemini (fst (audio_iteration read_fails never_started))) = []
   \<and> audio_chunks_sent (fst (audio_iteration read_fails never_started)) = 16"
  using read_chunk_not_running [of "wa_audio never_started" "Inl OSError" silent_resample _
      never_started read_fails]
  by (simp add: never_started_def session_10_16_def connected_def)

end
